theory Spec2Isabelle
  imports Main "HOL-Library.Multiset" "HOL-Library.Sublist"
begin

section \<open>Python values\<close>

text \<open>
  A Python \<open>str\<close> is a sequence of Unicode code points; the feed carries Cyrillic
  column names and price suffixes, so a character is its code point, a natural number.
  \<open>py\<close> reads an ASCII literal as such a sequence.
\<close>

type_synonym pystr = "nat list"

definition py :: "string \<Rightarrow> pystr" where
  "py s = map of_char s"

text \<open>
  The cells of a remnants record and the entries of an offer-ID list are dynamically
  typed. The values modelled are \<open>None\<close>, \<open>int\<close> and \<open>str\<close>; a \<open>float\<close> cell is outside
  the model (its \<open>str()\<close> is the shortest round-trip representation of a binary float).
\<close>

datatype pyval = PNone | PInt int | PStr pystr

datatype pyerr = TypeError | ValueError | AttributeError | IndexError | HTTPError

text \<open>A record of the feed is a \<open>dict\<close>; \<open>watch.get(key)\<close> is \<open>None\<close> for a missing key.\<close>

type_synonym pydict = "pystr \<rightharpoonup> pyval"

definition dict_get :: "pydict \<Rightarrow> pystr \<Rightarrow> pyval" where
  "dict_get d k = (case d k of None \<Rightarrow> PNone | Some v \<Rightarrow> v)"

text \<open>
  The column names of the feed, as code points: the Cyrillic words for "code"
  (U+041A U+043E U+0434), "quantity" and "price".
\<close>

definition kod :: pystr where
  "kod = [1050, 1086, 1076]"

definition kolichestvo :: pystr where
  "kolichestvo = [1050, 1086, 1083, 1080, 1095, 1077, 1089, 1090, 1074, 1086]"

definition tsena :: pystr where
  "tsena = [1062, 1077, 1085, 1072]"

subsection \<open>\<open>str()\<close> and \<open>int()\<close>\<close>

definition is_digit :: "nat \<Rightarrow> bool" where
  "is_digit c = (48 \<le> c \<and> c \<le> 57)"

fun dec_digits :: "nat \<Rightarrow> pystr" where
  "dec_digits n = (if n < 10 then [48 + n] else dec_digits (n div 10) @ [48 + n mod 10])"

declare dec_digits.simps [simp del]

text \<open>
  \<open>str(x)\<close>: a string is itself, \<open>None\<close> is \<open>"None"\<close>, an int is its decimal numeral.
  From Python 3.11 \<open>str()\<close> raises \<open>ValueError\<close> on an int of more than 4300 digits (a
  limit the interpreter can be started without); \<open>py_str\<close> has no such case, so no
  statement below says that a call on such a cell returns.
\<close>

definition py_str :: "pyval \<Rightarrow> pystr" where
  "py_str v = (case v of
       PNone \<Rightarrow> py ''None''
     | PInt i \<Rightarrow> (if i < 0 then 45 # dec_digits (nat (- i)) else dec_digits (nat i))
     | PStr s \<Rightarrow> s)"

text \<open>
  The characters \<open>int()\<close> skips at both ends of a string: the ASCII white space
  (tab to carriage return, and the space) and the Unicode white space beyond ASCII.
  The separators U+001C to U+001F, which \<open>str.strip\<close> removes, are not among them.
\<close>

definition py_isspace :: "nat \<Rightarrow> bool" where
  "py_isspace c = (c \<in> {9, 10, 11, 12, 13, 32, 133, 160, 5760,
       8232, 8233, 8239, 8287, 12288} \<or> (8192 \<le> c \<and> c \<le> 8202))"

definition py_strip :: "pystr \<Rightarrow> pystr" where
  "py_strip s = rev (dropWhile py_isspace (rev (dropWhile py_isspace s)))"

text \<open>
  The digits of a decimal literal, read left to right; a single underscore may stand
  between two digits. The caller has checked that the first character is a digit.
\<close>

fun parse_digits :: "pystr \<Rightarrow> nat \<Rightarrow> nat option" where
  "parse_digits [] acc = Some acc"
| "parse_digits (c # cs) acc =
     (if is_digit c then parse_digits cs (acc * 10 + (c - 48))
      else if c = 95 \<and> cs \<noteq> [] \<and> is_digit (hd cs) then parse_digits cs acc
      else None)"

text \<open>
  \<open>int(s)\<close> for a string, base 10: surrounding whitespace, an optional sign, digits.
  Anything else is a \<open>ValueError\<close>. Two things are not modelled: the decimal
  digits of scripts other than ASCII, which Python also accepts, and the limit (4300
  digits, from Python 3.11) beyond which \<open>int()\<close> and \<open>str()\<close> refuse to convert.
  The statements below use \<open>int()\<close> only through its result: none says which strings
  it accepts.
\<close>

definition int_of_str :: "pystr \<Rightarrow> pyerr + int" where
  "int_of_str s =
     (case py_strip s of
        [] \<Rightarrow> Inl ValueError
      | c # cs \<Rightarrow>
          (let neg = (c = 45);
               body = (if c = 45 \<or> c = 43 then cs else c # cs)
           in if body \<noteq> [] \<and> is_digit (hd body)
              then (case parse_digits body 0 of
                      None \<Rightarrow> Inl ValueError
                    | Some n \<Rightarrow> Inr (if neg then - int n else int n))
              else Inl ValueError))"

text \<open>\<open>int(x)\<close>: an int is itself, \<open>None\<close> is a \<open>TypeError\<close>, a string is parsed.\<close>

definition py_int :: "pyval \<Rightarrow> pyerr + int" where
  "py_int v = (case v of
       PNone \<Rightarrow> Inl TypeError
     | PInt i \<Rightarrow> Inr i
     | PStr s \<Rightarrow> int_of_str s)"

section \<open>seller.py: \<open>price_conversion\<close>\<close>

text \<open>
  \<^verbatim>\<open>return re.sub("[^0-9]", "", price.split(".")[0])\<close>

  \<open>s.split(".")\<close> cuts a string at every full stop and keeps the empty pieces.
\<close>

fun py_split :: "nat \<Rightarrow> pystr \<Rightarrow> pystr list" where
  "py_split sep [] = [[]]"
| "py_split sep (c # cs) =
     (if c = sep then [] # py_split sep cs
      else (case py_split sep cs of
              [] \<Rightarrow> [[c]]
            | p # ps \<Rightarrow> (c # p) # ps))"

text \<open>\<open>xs[0]\<close> raises \<open>IndexError\<close> on an empty list.\<close>

definition py_index0 :: "'a list \<Rightarrow> pyerr + 'a" where
  "py_index0 xs = (case xs of [] \<Rightarrow> Inl IndexError | x # _ \<Rightarrow> Inr x)"

text \<open>
  \<open>re.sub("[^0-9]", "", s)\<close> deletes every character outside the range \<open>0\<close>--\<open>9\<close>; the
  negated class also matches a newline.
\<close>

definition re_sub_non_digits :: "pystr \<Rightarrow> pystr" where
  "re_sub_non_digits s = filter is_digit s"

text \<open>
  Only a \<open>str\<close> has the method \<open>split\<close> taking a \<open>str\<close> separator: on \<open>None\<close> or an int
  the attribute lookup \<open>price.split\<close> raises \<open>AttributeError\<close> before \<open>re.sub\<close> is
  reached.
\<close>

definition price_conversion :: "pyval \<Rightarrow> pyerr + pystr" where
  "price_conversion price =
     (case price of
        PStr s \<Rightarrow>
          (case py_index0 (py_split 46 s) of
             Inl e \<Rightarrow> Inl e
           | Inr p \<Rightarrow> Inr (re_sub_non_digits p))
      | _ \<Rightarrow> Inl AttributeError)"

section \<open>seller.py: \<open>divide\<close>\<close>

text \<open>
  \<^verbatim>\<open>for i in range(0, len(lst), n): yield lst[i: i + n]\<close>

  \<open>divide_from\<close> is the loop from index \<open>i\<close> for a positive step; the slice is clipped
  at the end of the list. The test \<open>n = 0\<close> only makes the recursion total:
  \<open>divide_py\<close> never calls it with step 0, where \<open>range\<close> raises \<open>ValueError\<close>. A negative
  step gives an empty range. The callers collect the generator with \<open>list(...)\<close>.
  \<open>divide_py\<close> is the source's \<open>divide\<close>, a name HOL has taken.
\<close>

function divide_from :: "'a list \<Rightarrow> nat \<Rightarrow> nat \<Rightarrow> 'a list list" where
  "divide_from lst n i =
     (if n = 0 \<or> length lst \<le> i then []
      else take n (drop i lst) # divide_from lst n (i + n))"
  by pat_completeness auto
termination
  by (relation "measure (\<lambda>(lst, n, i). length lst - i)") auto

declare divide_from.simps [simp del]

definition divide_py :: "'a list \<Rightarrow> int \<Rightarrow> pyerr + 'a list list" where
  "divide_py lst n =
     (if n = 0 then Inl ValueError
      else if n < 0 then Inr []
      else Inr (divide_from lst (nat n) 0))"

section \<open>Stock lists: \<open>create_stocks\<close>\<close>

text \<open>
  Lines 226--232 of seller.py and 201--207 of market.py, the same text in both:
  \<^verbatim>\<open>
  count = str(watch.get(QUANTITY))
  if count == ">10":   stock = 100
  elif count == "1":   stock = 0
  else:                stock = int(watch.get(QUANTITY))
  \<close>
\<close>

definition stock_count :: "pydict \<Rightarrow> pyerr + int" where
  "stock_count watch =
     (let count = py_str (dict_get watch kolichestvo)
      in if count = py ''>10'' then Inr 100
         else if count = py ''1'' then Inr 0
         else py_int (dict_get watch kolichestvo))"

text \<open>
  The first loop of both \<open>create_stocks\<close>. The state is the list \<open>stocks\<close> being built
  and the caller's list \<open>offer_ids\<close>, which \<open>offer_ids.remove(...)\<close> mutates in place
  (the first equal element goes). The two platforms differ only in the entry they
  append, the parameter \<open>entry\<close>. An exception of \<open>int()\<close> leaves the loop.
\<close>

fun stocks_loop ::
  "(pystr \<Rightarrow> int \<Rightarrow> 'e) \<Rightarrow> pydict list \<Rightarrow> 'e list \<Rightarrow> pyval list
     \<Rightarrow> pyerr + ('e list \<times> pyval list)" where
  "stocks_loop entry [] stocks offer_ids = Inr (stocks, offer_ids)"
| "stocks_loop entry (watch # rest) stocks offer_ids =
     (if PStr (py_str (dict_get watch kod)) \<in> set offer_ids then
        (case stock_count watch of
           Inl e \<Rightarrow> Inl e
         | Inr stock \<Rightarrow>
             stocks_loop entry rest
               (stocks @ [entry (py_str (dict_get watch kod)) stock])
               (remove1 (PStr (py_str (dict_get watch kod))) offer_ids))
      else stocks_loop entry rest stocks offer_ids)"

text \<open>The second loop: one entry with count 0 for every offer ID still in the list.\<close>

fun leftover_loop :: "(pyval \<Rightarrow> 'e) \<Rightarrow> pyval list \<Rightarrow> 'e list \<Rightarrow> 'e list" where
  "leftover_loop zero [] stocks = stocks"
| "leftover_loop zero (offer_id # rest) stocks = leftover_loop zero rest (stocks @ [zero offer_id])"

subsection \<open>seller.py\<close>

record seller_stock =
  offer_id :: pyval
  stock :: int

text \<open>
  The result is the returned list together with the caller's \<open>offer_ids\<close> list as the
  call leaves it.
\<close>

definition create_stocks ::
  "pydict list \<Rightarrow> pyval list \<Rightarrow> pyerr + (seller_stock list \<times> pyval list)" where
  "create_stocks watch_remnants offer_ids =
     (case stocks_loop (\<lambda>c n. \<lparr>offer_id = PStr c, stock = n\<rparr>) watch_remnants [] offer_ids of
        Inl e \<Rightarrow> Inl e
      | Inr (stocks, offer_ids') \<Rightarrow>
          Inr (leftover_loop (\<lambda>i. \<lparr>offer_id = i, stock = 0\<rparr>) offer_ids' stocks, offer_ids'))"

subsection \<open>market.py\<close>

record market_item =
  item_count :: int
  item_type :: pystr
  updatedAt :: pystr

record market_stock =
  sku :: pyval
  warehouseId :: pyval
  items :: "market_item list"

text \<open>
  \<open>date\<close> is the string the function builds from \<open>datetime.datetime.utcnow()\<close> when it
  starts: the UTC time of the call to the second, in ISO format, with \<open>"Z"\<close>. Reading
  the clock is an input of the model.
\<close>

definition market_create_stocks ::
  "pystr \<Rightarrow> pydict list \<Rightarrow> pyval list \<Rightarrow> pyval
     \<Rightarrow> pyerr + (market_stock list \<times> pyval list)" where
  "market_create_stocks date watch_remnants offer_ids warehouse_id =
     (case stocks_loop
             (\<lambda>c n. \<lparr>sku = PStr c, warehouseId = warehouse_id,
                items = [\<lparr>item_count = n, item_type = py ''FIT'', updatedAt = date\<rparr>]\<rparr>)
             watch_remnants [] offer_ids of
        Inl e \<Rightarrow> Inl e
      | Inr (stocks, offer_ids') \<Rightarrow>
          Inr (leftover_loop
                 (\<lambda>i. \<lparr>sku = i, warehouseId = warehouse_id,
                    items = [\<lparr>item_count = 0, item_type = py ''FIT'', updatedAt = date\<rparr>]\<rparr>)
                 offer_ids' stocks,
               offer_ids'))"

section \<open>Price lists: \<open>create_prices\<close>\<close>

text \<open>
  The loop of both \<open>create_prices\<close>; \<open>entry\<close> builds the dict of one record and may
  raise. The offer-ID list is only read.
\<close>

fun prices_loop ::
  "(pydict \<Rightarrow> pyerr + 'e) \<Rightarrow> pydict list \<Rightarrow> 'e list \<Rightarrow> pyval list \<Rightarrow> pyerr + 'e list" where
  "prices_loop entry [] prices offer_ids = Inr prices"
| "prices_loop entry (watch # rest) prices offer_ids =
     (if PStr (py_str (dict_get watch kod)) \<in> set offer_ids then
        (case entry watch of
           Inl e \<Rightarrow> Inl e
         | Inr price \<Rightarrow> prices_loop entry rest (prices @ [price]) offer_ids)
      else prices_loop entry rest prices offer_ids)"

record seller_price =
  auto_action_enabled :: pystr
  currency_code :: pystr
  price_offer_id :: pystr
  old_price :: pystr
  price :: pystr

definition seller_price_entry :: "pydict \<Rightarrow> pyerr + seller_price" where
  "seller_price_entry watch =
     (case price_conversion (dict_get watch tsena) of
        Inl e \<Rightarrow> Inl e
      | Inr p \<Rightarrow>
          Inr \<lparr>auto_action_enabled = py ''UNKNOWN'', currency_code = py ''RUB'',
               price_offer_id = py_str (dict_get watch kod), old_price = py ''0'',
               price = p\<rparr>)"

definition create_prices :: "pydict list \<Rightarrow> pyval list \<Rightarrow> pyerr + seller_price list" where
  "create_prices watch_remnants offer_ids =
     prices_loop seller_price_entry watch_remnants [] offer_ids"

record market_price =
  price_id :: pystr
  price_value :: int
  currencyId :: pystr

text \<open>
  market.py nests \<open>{"value": ..., "currencyId": "RUR"}\<close> under the key \<open>"price"\<close>; the
  record is flat. The value is \<open>int(price_conversion(...))\<close>, a \<open>ValueError\<close> when the
  converted string is empty.
\<close>

definition market_price_entry :: "pydict \<Rightarrow> pyerr + market_price" where
  "market_price_entry watch =
     (case price_conversion (dict_get watch tsena) of
        Inl e \<Rightarrow> Inl e
      | Inr p \<Rightarrow>
          (case py_int (PStr p) of
             Inl e \<Rightarrow> Inl e
           | Inr v \<Rightarrow>
               Inr \<lparr>price_id = py_str (dict_get watch kod), price_value = v,
                    currencyId = py ''RUR''\<rparr>))"

definition market_create_prices :: "pydict list \<Rightarrow> pyval list \<Rightarrow> pyerr + market_price list" where
  "market_create_prices watch_remnants offer_ids =
     prices_loop market_price_entry watch_remnants [] offer_ids"

section \<open>Catalogue fetch: \<open>get_offer_ids\<close>\<close>

text \<open>
  What one HTTP request returns: the status code and, decoded, the member \<open>"result"\<close>
  of the JSON body. \<open>response.raise_for_status()\<close> of the \<open>requests\<close> library raises
  \<open>HTTPError\<close> for the client and server error statuses, 400 to 599, and for no other
  status. The bodies are taken as well-formed for each marketplace's schema.
\<close>

record 'b response =
  status_code :: nat
  json_result :: 'b

definition raise_for_status :: "'b response \<Rightarrow> pyerr + unit" where
  "raise_for_status r =
     (if 400 \<le> status_code r \<and> status_code r < 600 then Inl HTTPError else Inr ())"

text \<open>
  The endpoint is the environment of the fetch: for each request it makes, in order, a
  function from what the request sends (cursor, identifier, token) to the response. The
  \<open>while True\<close> loop has no bound of its own; run against a finite list of answers it
  raises, returns, or is still \<open>Pending\<close> in some loop state when the list is used up.
\<close>

datatype ('s, 'a) outcome = Raised pyerr | Returned 'a | Pending 's

subsection \<open>seller.py\<close>

record product =
  product_offer_id :: pyval

record seller_page =
  page_items :: "product list"
  page_total :: int
  page_last_id :: pystr

type_synonym seller_http = "pystr \<times> pystr \<times> pystr \<Rightarrow> seller_page response"

definition get_product_list ::
  "seller_http \<Rightarrow> pystr \<Rightarrow> pystr \<Rightarrow> pystr \<Rightarrow> pyerr + seller_page" where
  "get_product_list post last_id client_id seller_token =
     (let response = post (last_id, client_id, seller_token)
      in case raise_for_status response of
           Inl e \<Rightarrow> Inl e
         | Inr _ \<Rightarrow> Inr (json_result response))"

fun get_offer_ids_loop ::
  "seller_http list \<Rightarrow> pystr \<Rightarrow> product list \<Rightarrow> pystr \<Rightarrow> pystr
     \<Rightarrow> (pystr \<times> product list, product list) outcome" where
  "get_offer_ids_loop [] last_id product_list client_id seller_token =
     Pending (last_id, product_list)"
| "get_offer_ids_loop (post # net) last_id product_list client_id seller_token =
     (case get_product_list post last_id client_id seller_token of
        Inl e \<Rightarrow> Raised e
      | Inr some_prod \<Rightarrow>
          (let product_list' = product_list @ page_items some_prod
           in if page_total some_prod = int (length product_list') then Returned product_list'
              else get_offer_ids_loop net (page_last_id some_prod) product_list'
                     client_id seller_token))"

definition get_offer_ids ::
  "seller_http list \<Rightarrow> pystr \<Rightarrow> pystr \<Rightarrow> (pystr \<times> product list, pyval list) outcome" where
  "get_offer_ids net client_id seller_token =
     (case get_offer_ids_loop net [] [] client_id seller_token of
        Raised e \<Rightarrow> Raised e
      | Pending s \<Rightarrow> Pending s
      | Returned product_list \<Rightarrow> Returned (map product_offer_id product_list))"

subsection \<open>market.py\<close>

record market_entry =
  shopSku :: pyval

record market_page =
  offerMappingEntries :: "market_entry list"
  nextPageToken :: pyval

type_synonym market_http = "pyval \<times> pystr \<times> pystr \<Rightarrow> market_page response"

text \<open>The truth value of \<open>not page\<close>: \<open>None\<close>, \<open>""\<close> and \<open>0\<close> are false.\<close>

definition py_truthy :: "pyval \<Rightarrow> bool" where
  "py_truthy v = (case v of PNone \<Rightarrow> False | PInt i \<Rightarrow> i \<noteq> 0 | PStr s \<Rightarrow> s \<noteq> [])"

definition market_get_product_list ::
  "market_http \<Rightarrow> pyval \<Rightarrow> pystr \<Rightarrow> pystr \<Rightarrow> pyerr + market_page" where
  "market_get_product_list get page campaign_id access_token =
     (let response = get (page, campaign_id, access_token)
      in case raise_for_status response of
           Inl e \<Rightarrow> Inl e
         | Inr _ \<Rightarrow> Inr (json_result response))"

fun market_get_offer_ids_loop ::
  "market_http list \<Rightarrow> pyval \<Rightarrow> market_entry list \<Rightarrow> pystr \<Rightarrow> pystr
     \<Rightarrow> (pyval \<times> market_entry list, market_entry list) outcome" where
  "market_get_offer_ids_loop [] page product_list campaign_id market_token =
     Pending (page, product_list)"
| "market_get_offer_ids_loop (get # net) page product_list campaign_id market_token =
     (case market_get_product_list get page campaign_id market_token of
        Inl e \<Rightarrow> Raised e
      | Inr some_prod \<Rightarrow>
          (let product_list' = product_list @ offerMappingEntries some_prod;
               page' = nextPageToken some_prod
           in if \<not> py_truthy page' then Returned product_list'
              else market_get_offer_ids_loop net page' product_list'
                     campaign_id market_token))"

definition market_get_offer_ids ::
  "market_http list \<Rightarrow> pystr \<Rightarrow> pystr
     \<Rightarrow> (pyval \<times> market_entry list, pyval list) outcome" where
  "market_get_offer_ids net campaign_id market_token =
     (case market_get_offer_ids_loop net (PStr []) [] campaign_id market_token of
        Raised e \<Rightarrow> Raised e
      | Pending s \<Rightarrow> Pending s
      | Returned product_list \<Rightarrow> Returned (map shopSku product_list))"

section \<open>Auxiliary notions for the statements\<close>

text \<open>\<open>str(watch.get(CODE))\<close>, the expression both loops test and store.\<close>

abbreviation code_of :: "pydict \<Rightarrow> pystr" where
  "code_of watch \<equiv> py_str (dict_get watch kod)"

text \<open>
  An entry of market.py with the time stamp of every item replaced: what tells the
  outputs of two calls at different times apart.
\<close>

definition restamp :: "pystr \<Rightarrow> market_stock \<Rightarrow> market_stock" where
  "restamp d e = e\<lparr>items := map (\<lambda>i. i\<lparr>updatedAt := d\<rparr>) (items e)\<rparr>"

text \<open>
  A record of the feed with string cells for code, quantity and price, for the examples
  of the docstrings.
\<close>

definition feed_row :: "string \<Rightarrow> string \<Rightarrow> pystr \<Rightarrow> pydict" where
  "feed_row c q p = [kod \<mapsto> PStr (py c), kolichestvo \<mapsto> PStr (py q), tsena \<mapsto> PStr p]"

section \<open>Properties of \<open>price_conversion\<close>\<close>

lemma py_split_nonempty: "py_split sep s \<noteq> []"
  by (induction s) (auto split: list.splits)

lemma hd_py_split: "hd (py_split sep s) = takeWhile (\<lambda>c. c \<noteq> sep) s"
  by (induction s) (auto split: list.splits simp: py_split_nonempty)

lemma price_conversion_PStr:
  "price_conversion (PStr s) = Inr (filter is_digit (takeWhile (\<lambda>c. c \<noteq> 46) s))"
proof -
  obtain p ps where sp: "py_split 46 s = p # ps"
    using py_split_nonempty [of 46 s] by (cases "py_split 46 s") auto
  then have "p = takeWhile (\<lambda>c. c \<noteq> 46) s"
    using hd_py_split [of 46 s] by simp
  with sp show ?thesis
    by (simp add: price_conversion_def py_index0_def re_sub_non_digits_def)
qed

text \<open>
  C3. On every string, \<open>price_conversion\<close> returns the part before the first full stop
  (code point 46) with every character that is not one of the ASCII digits \<open>0\<close>--\<open>9\<close>
  (code points 48 to 57) deleted. So the result holds digits only, and it is empty when
  the part before the first full stop has no digit.
\<close>

theorem price_conversion_digits:
  "price_conversion (PStr s) = Inr (filter is_digit (takeWhile (\<lambda>c. c \<noteq> 46) s))
   \<and> (\<forall>r. price_conversion (PStr s) = Inr r \<longrightarrow> (\<forall>c \<in> set r. 48 \<le> c \<and> c \<le> 57))
   \<and> ((\<forall>c \<in> set (takeWhile (\<lambda>c. c \<noteq> 46) s). \<not> is_digit c)
        \<longrightarrow> price_conversion (PStr s) = Inr [])"
proof -
  have eq: "price_conversion (PStr s) = Inr (filter is_digit (takeWhile (\<lambda>c. c \<noteq> 46) s))"
    by (rule price_conversion_PStr)
  have "\<forall>c \<in> set (filter is_digit (takeWhile (\<lambda>c. c \<noteq> 46) s)). 48 \<le> c \<and> c \<le> 57"
    by (simp add: is_digit_def)
  moreover have "(\<forall>c \<in> set (takeWhile (\<lambda>c. c \<noteq> 46) s). \<not> is_digit c)
      \<longrightarrow> filter is_digit (takeWhile (\<lambda>c. c \<noteq> 46) s) = []"
    by (simp add: filter_empty_conv)
  ultimately show ?thesis using eq by simp
qed

text \<open>
  C3, at instances. The two prices of the docstrings, \<open>5'990.00\<close> and \<open>7'500.50\<close> followed by a space and
  the Cyrillic abbreviation of the rouble with its full stop, and a price with no
  integer part.
\<close>

theorem price_conversion_digits_witness:
  "price_conversion (PStr (py ''5'990.00 '' @ [1088, 1091, 1073, 46])) = Inr (py ''5990'')
   \<and> price_conversion (PStr (py ''7'500.50 '' @ [1088, 1091, 1073, 46])) = Inr (py ''7500'')
   \<and> price_conversion (PStr (py ''.50'')) = Inr []"
  using price_conversion_digits [of "py ''5'990.00 '' @ [1088, 1091, 1073, 46]"]
    price_conversion_digits [of "py ''7'500.50 '' @ [1088, 1091, 1073, 46]"]
    price_conversion_digits [of "py ''.50''"]
  by (simp add: py_def is_digit_def)

text \<open>
  C9. The docstring of \<open>price_conversion\<close> promises \<open>TypeError\<close> for the call
  \<open>price_conversion(5990.00)\<close>. A number and \<open>None\<close> have no attribute \<open>split\<close>: the
  function raises \<open>AttributeError\<close>, which is not a \<open>TypeError\<close>.
\<close>

theorem price_conversion_not_str:
  "price_conversion (PInt 5990) = Inl AttributeError
   \<and> price_conversion PNone = Inl AttributeError
   \<and> AttributeError \<noteq> TypeError"
  by (simp add: price_conversion_def)

section \<open>Properties of \<open>divide\<close>\<close>

lemma divide_from_concat: "0 < n \<Longrightarrow> concat (divide_from lst n i) = drop i lst"
proof (induction lst n i rule: divide_from.induct)
  case (1 lst n i)
  show ?case
  proof (cases "length lst \<le> i")
    case True
    then show ?thesis by (simp add: divide_from.simps)
  next
    case False
    with 1 have "concat (divide_from lst n (i + n)) = drop (i + n) lst" by simp
    moreover have "take n (drop i lst) @ drop (i + n) lst = drop i lst"
      by (metis add.commute append_take_drop_id drop_drop)
    ultimately show ?thesis using False "1.prems"
      by (subst divide_from.simps) simp
  qed
qed

lemma divide_from_nth:
  "0 < n \<Longrightarrow> k < length (divide_from lst n i) \<Longrightarrow>
     divide_from lst n i ! k = take n (drop (i + k * n) lst)"
proof (induction lst n i arbitrary: k rule: divide_from.induct)
  case (1 lst n i)
  show ?case
  proof (cases "length lst \<le> i")
    case True
    with "1.prems" show ?thesis by (simp add: divide_from.simps)
  next
    case False
    note unf = divide_from.simps [of lst n i]
    show ?thesis
    proof (cases k)
      case 0
      with False "1.prems" show ?thesis by (simp add: unf)
    next
      case (Suc j)
      with False "1.prems" have "j < length (divide_from lst n (i + n))"
        by (simp add: unf)
      with 1 False have "divide_from lst n (i + n) ! j = take n (drop (i + n + j * n) lst)"
        by simp
      with Suc False "1.prems" show ?thesis
        by (simp add: unf add.assoc)
    qed
  qed
qed

lemma divide_from_index:
  "0 < n \<Longrightarrow> k < length (divide_from lst n i) \<Longrightarrow> i + k * n < length lst"
proof (induction lst n i arbitrary: k rule: divide_from.induct)
  case (1 lst n i)
  show ?case
  proof (cases "length lst \<le> i")
    case True
    with "1.prems" show ?thesis by (simp add: divide_from.simps)
  next
    case False
    note unf = divide_from.simps [of lst n i]
    show ?thesis
    proof (cases k)
      case 0
      with False show ?thesis by simp
    next
      case (Suc j)
      with False "1.prems" have "j < length (divide_from lst n (i + n))"
        by (simp add: unf)
      with 1 False have "i + n + j * n < length lst"
        by simp
      with Suc show ?thesis
        by (simp add: add.assoc)
    qed
  qed
qed

lemma divide_from_chunk_le:
  "0 < n \<Longrightarrow> c \<in> set (divide_from lst n i) \<Longrightarrow> c \<noteq> [] \<and> length c \<le> n"
proof -
  assume n: "0 < n" and c: "c \<in> set (divide_from lst n i)"
  then obtain k where k: "k < length (divide_from lst n i)" "c = divide_from lst n i ! k"
    by (auto simp: in_set_conv_nth)
  with n have "c = take n (drop (i + k * n) lst)" "i + k * n < length lst"
    using divide_from_nth divide_from_index by blast+
  with n show ?thesis by auto
qed

lemma divide_from_full:
  assumes n: "0 < n" and k: "Suc k < length (divide_from lst n i)"
  shows "length (divide_from lst n i ! k) = n"
proof -
  from n k have "i + Suc k * n < length lst"
    by (rule divide_from_index)
  moreover from n k have "divide_from lst n i ! k = take n (drop (i + k * n) lst)"
    by (simp add: divide_from_nth)
  ultimately show ?thesis by simp
qed

text \<open>
  C8. For a positive \<open>n\<close>, \<open>divide_py lst n\<close> yields chunks whose concatenation is \<open>lst\<close>;
  the chunk of index \<open>k\<close> is the slice of \<open>lst\<close> from \<open>k * n\<close>, at most \<open>n\<close> long; no
  chunk is empty, none is longer than \<open>n\<close>, and every chunk but the last has exactly
  \<open>n\<close> elements.
\<close>

theorem divide_chunks:
  assumes "0 < n"
  shows "\<exists>cs. divide_py lst n = Inr cs \<and> concat cs = lst
           \<and> (\<forall>c \<in> set cs. c \<noteq> [] \<and> length c \<le> nat n)
           \<and> (\<forall>k. Suc k < length cs \<longrightarrow> length (cs ! k) = nat n)
           \<and> (\<forall>k < length cs. cs ! k = take (nat n) (drop (k * nat n) lst))"
proof -
  from assms have pos: "0 < nat n" by simp
  have d: "divide_py lst n = Inr (divide_from lst (nat n) 0)"
    using assms by (simp add: divide_py_def)
  have "concat (divide_from lst (nat n) 0) = lst"
    using divide_from_concat [OF pos, of lst 0] by simp
  moreover have "\<forall>c \<in> set (divide_from lst (nat n) 0). c \<noteq> [] \<and> length c \<le> nat n"
    using divide_from_chunk_le [OF pos] by blast
  moreover have "\<forall>k. Suc k < length (divide_from lst (nat n) 0)
      \<longrightarrow> length (divide_from lst (nat n) 0 ! k) = nat n"
    using divide_from_full [OF pos] by blast
  moreover have "\<forall>k < length (divide_from lst (nat n) 0).
      divide_from lst (nat n) 0 ! k = take (nat n) (drop (k * nat n) lst)"
    using divide_from_nth [OF pos, of _ lst 0] by simp
  ultimately show ?thesis using d by blast
qed

text \<open>C8, at an instance. The docstring's example: five elements in chunks of two.\<close>

theorem divide_chunks_witness:
  "(0::int) < 2 \<and> divide_py [1, 2, 3, 4, 5 :: int] 2 = Inr [[1, 2], [3, 4], [5]]
     \<and> concat [[1, 2], [3, 4], [5 :: int]] = [1, 2, 3, 4, 5]"
  using divide_chunks [of 2 "[1, 2, 3, 4, 5 :: int]"]
  by (simp add: divide_py_def divide_from.simps)

section \<open>Properties of the stock lists\<close>

lemma leftover_loop_map: "leftover_loop zero ids st = st @ map zero ids"
  by (induction ids arbitrary: st) auto

lemma subseq_remove1_self: "subseq (remove1 x xs) xs"
  by (induction xs) auto

lemma stocks_loop_append:
  "stocks_loop entry (xs @ ys) st ids =
     (case stocks_loop entry xs st ids of
        Inl e \<Rightarrow> Inl e
      | Inr (st', ids') \<Rightarrow> stocks_loop entry ys st' ids')"
  by (induction xs arbitrary: st ids) (auto split: sum.splits)

lemma stocks_loop_struct:
  "stocks_loop entry ws st ids = Inr (st', ids') \<Longrightarrow>
     \<exists>recs ns. subseq recs ws \<and> length ns = length recs
       \<and> st' = st @ map2 (\<lambda>w n. entry (code_of w) n) recs ns
       \<and> map stock_count recs = map Inr ns
       \<and> mset ids = mset ids' + mset (map (\<lambda>w. PStr (code_of w)) recs)
       \<and> subseq ids' ids"
proof (induction ws arbitrary: st ids)
  case Nil
  then show ?case by auto
next
  case (Cons w ws)
  show ?case
  proof (cases "PStr (code_of w) \<in> set ids")
    case False
    with Cons.prems have "stocks_loop entry ws st ids = Inr (st', ids')" by simp
    from Cons.IH [OF this] obtain recs ns where
      "subseq recs ws" "length ns = length recs"
      "st' = st @ map2 (\<lambda>w n. entry (code_of w) n) recs ns"
      "map stock_count recs = map Inr ns"
      "mset ids = mset ids' + mset (map (\<lambda>w. PStr (code_of w)) recs)"
      "subseq ids' ids" by blast
    moreover from \<open>subseq recs ws\<close> have "subseq recs (w # ws)" by (rule list_emb_Cons)
    ultimately show ?thesis by blast
  next
    case True
    with Cons.prems obtain n where n: "stock_count w = Inr n"
      and run: "stocks_loop entry ws (st @ [entry (code_of w) n])
                  (remove1 (PStr (code_of w)) ids) = Inr (st', ids')"
      by (auto split: sum.splits)
    from Cons.IH [OF run] obtain recs ns where r:
      "subseq recs ws" "length ns = length recs"
      "st' = (st @ [entry (code_of w) n]) @ map2 (\<lambda>w n. entry (code_of w) n) recs ns"
      "map stock_count recs = map Inr ns"
      "mset (remove1 (PStr (code_of w)) ids) = mset ids' + mset (map (\<lambda>w. PStr (code_of w)) recs)"
      "subseq ids' (remove1 (PStr (code_of w)) ids)" by blast
    have 1: "subseq (w # recs) (w # ws)" using r(1) by simp
    have 2: "length (n # ns) = length (w # recs)" using r(2) by simp
    have 3: "st' = st @ map2 (\<lambda>w n. entry (code_of w) n) (w # recs) (n # ns)"
      using r(3) by simp
    have 4: "map stock_count (w # recs) = map Inr (n # ns)" using r(4) n by simp
    from True have "add_mset (PStr (code_of w)) (mset ids - {#PStr (code_of w)#}) = mset ids"
      by simp
    with r(5) have 5: "mset ids = mset ids' + mset (map (\<lambda>w. PStr (code_of w)) (w # recs))"
      by simp
    have "subseq (remove1 (PStr (code_of w)) ids) ids"
      by (rule subseq_remove1_self)
    with r(6) have 6: "subseq ids' ids" by (rule subseq_order.trans)
    from 1 2 3 4 5 6 show ?thesis by blast
  qed
qed

lemma stocks_loop_distinct:
  "distinct ids \<Longrightarrow> stocks_loop entry ws st ids = Inr (st', ids') \<Longrightarrow>
     ids' = filter (\<lambda>i. i \<notin> (\<lambda>w. PStr (code_of w)) ` set ws) ids"
proof (induction ws arbitrary: st ids)
  case Nil
  then show ?case by simp
next
  case (Cons w ws)
  show ?case
  proof (cases "PStr (code_of w) \<in> set ids")
    case False
    with Cons.prems have "stocks_loop entry ws st ids = Inr (st', ids')" by simp
    with Cons have "ids' = filter (\<lambda>i. i \<notin> (\<lambda>w. PStr (code_of w)) ` set ws) ids" by blast
    also have "\<dots> = filter (\<lambda>i. i \<notin> (\<lambda>w. PStr (code_of w)) ` set (w # ws)) ids"
      using False by (intro filter_cong) auto
    finally show ?thesis .
  next
    case True
    with Cons.prems obtain n where
      run: "stocks_loop entry ws (st @ [entry (code_of w) n])
                  (remove1 (PStr (code_of w)) ids) = Inr (st', ids')"
      by (auto split: sum.splits)
    have d: "distinct (remove1 (PStr (code_of w)) ids)" using Cons.prems by simp
    from Cons.IH [OF d run] have
      "ids' = filter (\<lambda>i. i \<notin> (\<lambda>w. PStr (code_of w)) ` set ws) (remove1 (PStr (code_of w)) ids)" .
    also have "remove1 (PStr (code_of w)) ids = filter (\<lambda>i. i \<noteq> PStr (code_of w)) ids"
      using Cons.prems(1) by (simp add: distinct_remove1_removeAll removeAll_filter_not_eq eq_commute)
    also have "filter (\<lambda>i. i \<notin> (\<lambda>w. PStr (code_of w)) ` set ws) (filter (\<lambda>i. i \<noteq> PStr (code_of w)) ids)
        = filter (\<lambda>i. i \<notin> (\<lambda>w. PStr (code_of w)) ` set (w # ws)) ids"
      by (induction ids) auto
    finally show ?thesis .
  qed
qed

lemma stocks_loop_entry:
  assumes "\<And>c n. f (e1 c n) = e2 c n"
  shows "stocks_loop e2 ws (map f st) ids =
           (case stocks_loop e1 ws st ids of
              Inl e \<Rightarrow> Inl e
            | Inr (s, i) \<Rightarrow> Inr (map f s, i))"
proof (induction ws arbitrary: st ids)
  case Nil
  show ?case by simp
next
  case (Cons w ws)
  show ?case
  proof (cases "PStr (code_of w) \<in> set ids")
    case False
    then show ?thesis using Cons.IH by simp
  next
    case True
    show ?thesis
    proof (cases "stock_count w")
      case (Inl e)
      with True show ?thesis by simp
    next
      case (Inr n)
      have "stocks_loop e2 ws (map f (st @ [e1 (code_of w) n])) (remove1 (PStr (code_of w)) ids)
          = (case stocks_loop e1 ws (st @ [e1 (code_of w) n]) (remove1 (PStr (code_of w)) ids) of
               Inl e \<Rightarrow> Inl e
             | Inr (s, i) \<Rightarrow> Inr (map f s, i))"
        by (rule Cons.IH)
      with True Inr show ?thesis by (simp add: assms)
    qed
  qed
qed

lemma stocks_loop_position:
  assumes pre: "stocks_loop entry pre [] ids = Inr (st, cur)"
    and mem: "PStr (code_of w) \<in> set cur"
    and run: "stocks_loop entry (pre @ w # post) [] ids = Inr (st', ids')"
  shows "\<exists>n. stock_count w = Inr n \<and> length st < length st'
           \<and> st' ! length st = entry (code_of w) n"
proof -
  from run pre have "stocks_loop entry (w # post) st cur = Inr (st', ids')"
    by (simp add: stocks_loop_append)
  with mem obtain n where n: "stock_count w = Inr n"
    and rest: "stocks_loop entry post (st @ [entry (code_of w) n])
                 (remove1 (PStr (code_of w)) cur) = Inr (st', ids')"
    by (auto split: sum.splits)
  from stocks_loop_struct [OF rest] obtain more where
    "st' = (st @ [entry (code_of w) n]) @ more" by blast
  then have "length st < length st'" "st' ! length st = entry (code_of w) n"
    by (simp_all add: nth_append)
  with n show ?thesis by blast
qed

lemma stock_count_rule:
  assumes "stock_count w = Inr n"
  shows "(py_str (dict_get w kolichestvo) = py ''>10'' \<longrightarrow> n = 100)
       \<and> (py_str (dict_get w kolichestvo) = py ''1'' \<longrightarrow> n = 0)
       \<and> (py_str (dict_get w kolichestvo) \<noteq> py ''>10''
            \<and> py_str (dict_get w kolichestvo) \<noteq> py ''1''
            \<longrightarrow> py_int (dict_get w kolichestvo) = Inr n)"
  using assms by (auto simp: stock_count_def Let_def py_def split: if_splits)

lemma create_stocks_Inr:
  "create_stocks ws ids = Inr (out, ids') \<longleftrightarrow>
     (\<exists>st. stocks_loop (\<lambda>c n. \<lparr>offer_id = PStr c, stock = n\<rparr>) ws [] ids = Inr (st, ids')
        \<and> out = st @ map (\<lambda>i. \<lparr>offer_id = i, stock = 0\<rparr>) ids')"
  by (auto simp: create_stocks_def leftover_loop_map split: sum.splits)

lemma market_create_stocks_Inr:
  "market_create_stocks date ws ids wh = Inr (out, ids') \<longleftrightarrow>
     (\<exists>st. stocks_loop (\<lambda>c n. \<lparr>sku = PStr c, warehouseId = wh,
                items = [\<lparr>item_count = n, item_type = py ''FIT'', updatedAt = date\<rparr>]\<rparr>)
              ws [] ids = Inr (st, ids')
        \<and> out = st @ map (\<lambda>i. \<lparr>sku = i, warehouseId = wh,
                    items = [\<lparr>item_count = 0, item_type = py ''FIT'', updatedAt = date\<rparr>]\<rparr>) ids')"
  by (auto simp: market_create_stocks_def leftover_loop_map split: sum.splits)

text \<open>
  C1. Let the first loop have run over the records \<open>pre\<close> and left the working list
  \<open>cur\<close>, and let the next record \<open>w\<close> have its code in \<open>cur\<close>. Then a call that
  returns has appended an entry for \<open>w\<close>, at the index the loop had reached (the
  number of entries the records of \<open>pre\<close> gave: those returned for \<open>pre\<close> less the
  zero entries of \<open>cur\<close>). The entry carries the code of \<open>w\<close> and the count \<open>n\<close>:
  100 when the quantity string is \<open>">10"\<close>, 0 when it is \<open>"1"\<close>, and otherwise the
  integer \<open>int()\<close> makes of the quantity cell. The same holds for the \<open>count\<close> of the
  item in market.py.
\<close>

theorem create_stocks_quantity_rule:
  "(create_stocks pre ids = Inr (out_pre, cur) \<longrightarrow> PStr (code_of w) \<in> set cur
      \<longrightarrow> create_stocks (pre @ w # post) ids = Inr (out, ids')
      \<longrightarrow> (\<exists>n. out ! (length out_pre - length cur) = \<lparr>offer_id = PStr (code_of w), stock = n\<rparr>
            \<and> (py_str (dict_get w kolichestvo) = py ''>10'' \<longrightarrow> n = 100)
            \<and> (py_str (dict_get w kolichestvo) = py ''1'' \<longrightarrow> n = 0)
            \<and> (py_str (dict_get w kolichestvo) \<noteq> py ''>10''
                 \<and> py_str (dict_get w kolichestvo) \<noteq> py ''1''
                 \<longrightarrow> py_int (dict_get w kolichestvo) = Inr n)))
 \<and> (market_create_stocks date pre ids wh = Inr (mout_pre, mcur) \<longrightarrow> PStr (code_of w) \<in> set mcur
      \<longrightarrow> market_create_stocks date (pre @ w # post) ids wh = Inr (mout, mids')
      \<longrightarrow> (\<exists>n. mout ! (length mout_pre - length mcur) =
                 \<lparr>sku = PStr (code_of w), warehouseId = wh,
                  items = [\<lparr>item_count = n, item_type = py ''FIT'', updatedAt = date\<rparr>]\<rparr>
            \<and> (py_str (dict_get w kolichestvo) = py ''>10'' \<longrightarrow> n = 100)
            \<and> (py_str (dict_get w kolichestvo) = py ''1'' \<longrightarrow> n = 0)
            \<and> (py_str (dict_get w kolichestvo) \<noteq> py ''>10''
                 \<and> py_str (dict_get w kolichestvo) \<noteq> py ''1''
                 \<longrightarrow> py_int (dict_get w kolichestvo) = Inr n)))"
proof (intro conjI impI)
  assume a: "create_stocks pre ids = Inr (out_pre, cur)" "PStr (code_of w) \<in> set cur"
    "create_stocks (pre @ w # post) ids = Inr (out, ids')"
  from a(1) obtain st where st: "stocks_loop (\<lambda>c n. \<lparr>offer_id = PStr c, stock = n\<rparr>) pre [] ids = Inr (st, cur)"
    "out_pre = st @ map (\<lambda>i. \<lparr>offer_id = i, stock = 0\<rparr>) cur"
    unfolding create_stocks_Inr by blast
  from a(3) obtain st' where st': "stocks_loop (\<lambda>c n. \<lparr>offer_id = PStr c, stock = n\<rparr>) (pre @ w # post) [] ids = Inr (st', ids')"
    "out = st' @ map (\<lambda>i. \<lparr>offer_id = i, stock = 0\<rparr>) ids'"
    unfolding create_stocks_Inr by blast
  from stocks_loop_position [OF st(1) a(2) st'(1)] obtain n where
    n: "stock_count w = Inr n" "length st < length st'"
       "st' ! length st = \<lparr>offer_id = PStr (code_of w), stock = n\<rparr>" by blast
  from st(2) have "length out_pre - length cur = length st" by simp
  with n st'(2) have "out ! (length out_pre - length cur) = \<lparr>offer_id = PStr (code_of w), stock = n\<rparr>"
    by (simp add: nth_append)
  with stock_count_rule [OF n(1)]
  show "\<exists>n. out ! (length out_pre - length cur) = \<lparr>offer_id = PStr (code_of w), stock = n\<rparr>
            \<and> (py_str (dict_get w kolichestvo) = py ''>10'' \<longrightarrow> n = 100)
            \<and> (py_str (dict_get w kolichestvo) = py ''1'' \<longrightarrow> n = 0)
            \<and> (py_str (dict_get w kolichestvo) \<noteq> py ''>10''
                 \<and> py_str (dict_get w kolichestvo) \<noteq> py ''1''
                 \<longrightarrow> py_int (dict_get w kolichestvo) = Inr n)"
    by blast
next
  let ?e = "\<lambda>c n. \<lparr>sku = PStr c, warehouseId = wh,
                items = [\<lparr>item_count = n, item_type = py ''FIT'', updatedAt = date\<rparr>]\<rparr>"
  let ?z = "\<lambda>i. \<lparr>sku = i, warehouseId = wh,
                    items = [\<lparr>item_count = 0, item_type = py ''FIT'', updatedAt = date\<rparr>]\<rparr>"
  assume a: "market_create_stocks date pre ids wh = Inr (mout_pre, mcur)" "PStr (code_of w) \<in> set mcur"
    "market_create_stocks date (pre @ w # post) ids wh = Inr (mout, mids')"
  from a(1) obtain st where st: "stocks_loop ?e pre [] ids = Inr (st, mcur)"
    "mout_pre = st @ map ?z mcur"
    unfolding market_create_stocks_Inr by blast
  from a(3) obtain st' where st': "stocks_loop ?e (pre @ w # post) [] ids = Inr (st', mids')"
    "mout = st' @ map ?z mids'"
    unfolding market_create_stocks_Inr by blast
  from stocks_loop_position [OF st(1) a(2) st'(1)] obtain n where
    n: "stock_count w = Inr n" "length st < length st'"
       "st' ! length st = ?e (code_of w) n" by blast
  from st(2) have "length mout_pre - length mcur = length st" by simp
  with n st'(2) have "mout ! (length mout_pre - length mcur) = ?e (code_of w) n"
    by (simp add: nth_append)
  with stock_count_rule [OF n(1)]
  show "\<exists>n. mout ! (length mout_pre - length mcur) = ?e (code_of w) n
            \<and> (py_str (dict_get w kolichestvo) = py ''>10'' \<longrightarrow> n = 100)
            \<and> (py_str (dict_get w kolichestvo) = py ''1'' \<longrightarrow> n = 0)
            \<and> (py_str (dict_get w kolichestvo) \<noteq> py ''>10''
                 \<and> py_str (dict_get w kolichestvo) \<noteq> py ''1''
                 \<longrightarrow> py_int (dict_get w kolichestvo) = Inr n)"
    by blast
qed

lemma map2_key:
  "length ns = length recs \<Longrightarrow> (\<And>c n. key (entry c n) = PStr c) \<Longrightarrow>
     map key (map2 (\<lambda>w n. entry (code_of w) n) recs ns) = map (\<lambda>w. PStr (code_of w)) recs"
  by (induction recs ns rule: list_induct2') auto

lemma stocks_loop_keys:
  assumes run: "stocks_loop entry ws [] ids = Inr (st, ids')"
    and key: "\<And>c n. key (entry c n) = PStr c"
  shows "mset (map key st) + mset ids' = mset ids"
proof -
  from stocks_loop_struct [OF run] obtain recs ns where r:
    "length ns = length recs" "st = [] @ map2 (\<lambda>w n. entry (code_of w) n) recs ns"
    "mset ids = mset ids' + mset (map (\<lambda>w. PStr (code_of w)) recs)" by blast
  from r(1) key have "map key (map2 (\<lambda>w n. entry (code_of w) n) recs ns) = map (\<lambda>w. PStr (code_of w)) recs"
    by (rule map2_key)
  with r(2,3) show ?thesis by simp
qed

lemma same_mset_distinct:
  assumes "mset xs = mset ys" "distinct ys"
  shows "length xs = length ys \<and> distinct xs \<and> set xs = set ys"
  using assms by (metis mset_eq_length mset_eq_imp_distinct_iff mset_eq_setD)

text \<open>
  C2, amended. For a duplicate-free offer-ID list, a call that returns gives exactly one
  entry for each offer ID and nothing else: as many entries as offer IDs, with pairwise
  different IDs, which are the IDs of the list. A record whose code is not an offer ID
  adds no entry.
\<close>

theorem create_stocks_one_entry_per_offer:
  "(distinct ids \<longrightarrow> create_stocks ws ids = Inr (out, ids')
      \<longrightarrow> length out = length ids \<and> distinct (map offer_id out)
          \<and> set (map offer_id out) = set ids)
 \<and> (distinct ids \<longrightarrow> market_create_stocks date ws ids wh = Inr (mout, mids')
      \<longrightarrow> length mout = length ids \<and> distinct (map sku mout)
          \<and> set (map sku mout) = set ids)"
proof (intro conjI impI)
  assume d: "distinct ids" and run: "create_stocks ws ids = Inr (out, ids')"
  from run obtain st where st:
    "stocks_loop (\<lambda>c n. \<lparr>offer_id = PStr c, stock = n\<rparr>) ws [] ids = Inr (st, ids')"
    "out = st @ map (\<lambda>i. \<lparr>offer_id = i, stock = 0\<rparr>) ids'"
    unfolding create_stocks_Inr by blast
  have "mset (map offer_id st) + mset ids' = mset ids"
    by (rule stocks_loop_keys [OF st(1)]) simp
  with st(2) have "mset (map offer_id out) = mset ids" by (simp add: comp_def)
  from same_mset_distinct [OF this d]
  show "length out = length ids" "distinct (map offer_id out)" "set (map offer_id out) = set ids"
    by simp_all
next
  assume d: "distinct ids" and run: "market_create_stocks date ws ids wh = Inr (mout, mids')"
  let ?e = "\<lambda>c n. \<lparr>sku = PStr c, warehouseId = wh,
                items = [\<lparr>item_count = n, item_type = py ''FIT'', updatedAt = date\<rparr>]\<rparr>"
  let ?z = "\<lambda>i. \<lparr>sku = i, warehouseId = wh,
                    items = [\<lparr>item_count = 0, item_type = py ''FIT'', updatedAt = date\<rparr>]\<rparr>"
  from run obtain st where st: "stocks_loop ?e ws [] ids = Inr (st, mids')"
    "mout = st @ map ?z mids'"
    unfolding market_create_stocks_Inr by blast
  have "mset (map sku st) + mset mids' = mset ids"
    by (rule stocks_loop_keys [OF st(1)]) simp
  with st(2) have "mset (map sku mout) = mset ids" by (simp add: comp_def)
  from same_mset_distinct [OF this d]
  show "length mout = length ids" "distinct (map sku mout)" "set (map sku mout) = set ids"
    by simp_all
qed

lemma prices_loop_no_match:
  "\<forall>w \<in> set ws. PStr (code_of w) \<notin> set ids \<Longrightarrow> prices_loop entry ws acc ids = Inr acc"
  by (induction ws arbitrary: acc) auto

text \<open>
  C5, amended. For a duplicate-free offer-ID list, a call that returns leaves in the
  caller's list exactly the offer IDs that are the code of no record, in their original
  order. Passed on to \<open>create_prices\<close> with the same records, as \<open>main\<close> of seller.py
  does, that list matches no record: the price list is empty.
\<close>

theorem create_stocks_consumes_offer_ids:
  "(distinct ids \<longrightarrow> create_stocks ws ids = Inr (out, ids')
      \<longrightarrow> ids' = filter (\<lambda>i. i \<notin> (\<lambda>w. PStr (code_of w)) ` set ws) ids
          \<and> create_prices ws ids' = Inr [])
 \<and> (distinct ids \<longrightarrow> market_create_stocks date ws ids wh = Inr (mout, mids')
      \<longrightarrow> mids' = filter (\<lambda>i. i \<notin> (\<lambda>w. PStr (code_of w)) ` set ws) ids)"
proof (intro conjI impI)
  assume d: "distinct ids" and run: "create_stocks ws ids = Inr (out, ids')"
  from run obtain st where
    "stocks_loop (\<lambda>c n. \<lparr>offer_id = PStr c, stock = n\<rparr>) ws [] ids = Inr (st, ids')"
    unfolding create_stocks_Inr by blast
  with d show eq: "ids' = filter (\<lambda>i. i \<notin> (\<lambda>w. PStr (code_of w)) ` set ws) ids"
    by (rule stocks_loop_distinct)
  then have "\<forall>w \<in> set ws. PStr (code_of w) \<notin> set ids'" by auto
  then show "create_prices ws ids' = Inr []"
    unfolding create_prices_def by (rule prices_loop_no_match)
next
  assume d: "distinct ids" and run: "market_create_stocks date ws ids wh = Inr (mout, mids')"
  from run obtain st where
    "stocks_loop (\<lambda>c n. \<lparr>sku = PStr c, warehouseId = wh,
                items = [\<lparr>item_count = n, item_type = py ''FIT'', updatedAt = date\<rparr>]\<rparr>)
       ws [] ids = Inr (st, mids')"
    unfolding market_create_stocks_Inr by blast
  with d show "mids' = filter (\<lambda>i. i \<notin> (\<lambda>w. PStr (code_of w)) ` set ws) ids"
    by (rule stocks_loop_distinct)
qed

text \<open>
  C6, amended. A call that returns gives first the entries of records, in the order of
  the records (\<open>recs\<close> is a subsequence of the input, \<open>ns\<close> the counts of its records),
  then one entry with count 0 for every offer ID left in the working list, in the order
  of the catalogue. When the offer-ID list is duplicate-free, the IDs left are exactly
  those that are the code of no record.
\<close>

theorem create_stocks_order:
  "(create_stocks ws ids = Inr (out, ids') \<longrightarrow>
      (\<exists>recs ns. subseq recs ws \<and> map stock_count recs = map Inr ns
         \<and> out = map2 (\<lambda>w n. \<lparr>offer_id = PStr (code_of w), stock = n\<rparr>) recs ns
                 @ map (\<lambda>i. \<lparr>offer_id = i, stock = 0\<rparr>) ids'
         \<and> subseq ids' ids
         \<and> (distinct ids \<longrightarrow> ids' = filter (\<lambda>i. i \<notin> (\<lambda>w. PStr (code_of w)) ` set ws) ids)))
 \<and> (market_create_stocks date ws ids wh = Inr (mout, mids') \<longrightarrow>
      (\<exists>recs ns. subseq recs ws \<and> map stock_count recs = map Inr ns
         \<and> mout = map2 (\<lambda>w n. \<lparr>sku = PStr (code_of w), warehouseId = wh,
                     items = [\<lparr>item_count = n, item_type = py ''FIT'', updatedAt = date\<rparr>]\<rparr>) recs ns
                 @ map (\<lambda>i. \<lparr>sku = i, warehouseId = wh,
                     items = [\<lparr>item_count = 0, item_type = py ''FIT'', updatedAt = date\<rparr>]\<rparr>) mids'
         \<and> subseq mids' ids
         \<and> (distinct ids \<longrightarrow> mids' = filter (\<lambda>i. i \<notin> (\<lambda>w. PStr (code_of w)) ` set ws) ids)))"
proof (intro conjI impI)
  assume run: "create_stocks ws ids = Inr (out, ids')"
  let ?e = "\<lambda>c n. \<lparr>offer_id = PStr c, stock = n\<rparr>"
  from run obtain st where st: "stocks_loop ?e ws [] ids = Inr (st, ids')"
    "out = st @ map (\<lambda>i. \<lparr>offer_id = i, stock = 0\<rparr>) ids'"
    unfolding create_stocks_Inr by blast
  from stocks_loop_struct [OF st(1)] obtain recs ns where r:
    "subseq recs ws" "st = [] @ map2 (\<lambda>w n. ?e (code_of w) n) recs ns"
    "map stock_count recs = map Inr ns" "subseq ids' ids" by blast
  have "distinct ids \<longrightarrow> ids' = filter (\<lambda>i. i \<notin> (\<lambda>w. PStr (code_of w)) ` set ws) ids"
    using stocks_loop_distinct [OF _ st(1)] by blast
  with r st(2)
  show "\<exists>recs ns. subseq recs ws \<and> map stock_count recs = map Inr ns
         \<and> out = map2 (\<lambda>w n. \<lparr>offer_id = PStr (code_of w), stock = n\<rparr>) recs ns
                 @ map (\<lambda>i. \<lparr>offer_id = i, stock = 0\<rparr>) ids'
         \<and> subseq ids' ids
         \<and> (distinct ids \<longrightarrow> ids' = filter (\<lambda>i. i \<notin> (\<lambda>w. PStr (code_of w)) ` set ws) ids)"
    by (intro exI [of _ recs] exI [of _ ns]) simp
next
  assume run: "market_create_stocks date ws ids wh = Inr (mout, mids')"
  let ?e = "\<lambda>c n. \<lparr>sku = PStr c, warehouseId = wh,
                items = [\<lparr>item_count = n, item_type = py ''FIT'', updatedAt = date\<rparr>]\<rparr>"
  let ?z = "\<lambda>i. \<lparr>sku = i, warehouseId = wh,
                    items = [\<lparr>item_count = 0, item_type = py ''FIT'', updatedAt = date\<rparr>]\<rparr>"
  from run obtain st where st: "stocks_loop ?e ws [] ids = Inr (st, mids')"
    "mout = st @ map ?z mids'"
    unfolding market_create_stocks_Inr by blast
  from stocks_loop_struct [OF st(1)] obtain recs ns where r:
    "subseq recs ws" "st = [] @ map2 (\<lambda>w n. ?e (code_of w) n) recs ns"
    "map stock_count recs = map Inr ns" "subseq mids' ids" by blast
  have "distinct ids \<longrightarrow> mids' = filter (\<lambda>i. i \<notin> (\<lambda>w. PStr (code_of w)) ` set ws) ids"
    using stocks_loop_distinct [OF _ st(1)] by blast
  with r st(2)
  show "\<exists>recs ns. subseq recs ws \<and> map stock_count recs = map Inr ns
         \<and> mout = map2 (\<lambda>w n. ?e (code_of w) n) recs ns @ map ?z mids'
         \<and> subseq mids' ids
         \<and> (distinct ids \<longrightarrow> mids' = filter (\<lambda>i. i \<notin> (\<lambda>w. PStr (code_of w)) ` set ws) ids)"
    by (intro exI [of _ recs] exI [of _ ns]) simp
qed

text \<open>
  C4, amended. seller.py's \<open>create_stocks\<close> has no input but its two arguments, so two
  calls on equal arguments agree. market.py's also reads the clock: the output of a call
  that reads \<open>d2\<close> is the output of a call that reads \<open>d1\<close> with every \<open>updatedAt\<close>
  replaced by \<open>d2\<close>; raising or returning, the entries in everything else, and the
  list left to the caller do not depend on the clock.
\<close>

theorem create_stocks_two_runs:
  "market_create_stocks d2 ws ids wh =
     (case market_create_stocks d1 ws ids wh of
        Inl e \<Rightarrow> Inl e
      | Inr (out, ids') \<Rightarrow> Inr (map (restamp d2) out, ids'))
   \<and> (create_stocks ws ids = r1 \<longrightarrow> create_stocks ws ids = r2 \<longrightarrow> r1 = r2)"
proof
  let ?e1 = "\<lambda>c n. \<lparr>sku = PStr c, warehouseId = wh,
                items = [\<lparr>item_count = n, item_type = py ''FIT'', updatedAt = d1\<rparr>]\<rparr>"
  let ?e2 = "\<lambda>c n. \<lparr>sku = PStr c, warehouseId = wh,
                items = [\<lparr>item_count = n, item_type = py ''FIT'', updatedAt = d2\<rparr>]\<rparr>"
  have "stocks_loop ?e2 ws (map (restamp d2) []) ids =
      (case stocks_loop ?e1 ws [] ids of
         Inl e \<Rightarrow> Inl e
       | Inr (s, i) \<Rightarrow> Inr (map (restamp d2) s, i))"
    by (rule stocks_loop_entry) (simp add: restamp_def)
  then show "market_create_stocks d2 ws ids wh =
     (case market_create_stocks d1 ws ids wh of
        Inl e \<Rightarrow> Inl e
      | Inr (out, ids') \<Rightarrow> Inr (map (restamp d2) out, ids'))"
    by (simp add: market_create_stocks_def leftover_loop_map restamp_def split: sum.splits)
  show "create_stocks ws ids = r1 \<longrightarrow> create_stocks ws ids = r2 \<longrightarrow> r1 = r2"
    by simp
qed

section \<open>The examples, evaluated\<close>

lemmas run_simps =
  create_stocks_def market_create_stocks_def create_prices_def market_create_prices_def
  seller_price_entry_def market_price_entry_def stock_count_def feed_row_def
  dict_get_def kod_def kolichestvo_def tsena_def py_def py_str_def py_int_def
  int_of_str_def py_strip_def py_isspace_def is_digit_def

text \<open>
  C1, at an instance. The quantities of the specification's scenarios: \<open>">10"\<close> gives 100, \<open>"1"\<close> gives 0,
  \<open>"7"\<close> gives 7.
\<close>

theorem create_stocks_quantity_rule_witness:
  "create_stocks [feed_row ''123'' ''>10'' [], feed_row ''456'' ''1'' []]
      [PStr (py ''123''), PStr (py ''456''), PStr (py ''789'')]
    = Inr ([\<lparr>offer_id = PStr (py ''123''), stock = 100\<rparr>,
      \<lparr>offer_id = PStr (py ''456''), stock = 0\<rparr>,
      \<lparr>offer_id = PStr (py ''789''), stock = 0\<rparr>],
       [PStr (py ''789'')])
   \<and> PStr (code_of (feed_row ''789'' ''7'' [])) \<in> set [PStr (py ''789'')]
   \<and> create_stocks ([feed_row ''123'' ''>10'' [], feed_row ''456'' ''1'' []] @ feed_row ''789'' ''7'' [] # [])
      [PStr (py ''123''), PStr (py ''456''), PStr (py ''789'')]
    = Inr ([\<lparr>offer_id = PStr (py ''123''), stock = 100\<rparr>,
      \<lparr>offer_id = PStr (py ''456''), stock = 0\<rparr>,
      \<lparr>offer_id = PStr (py ''789''), stock = 7\<rparr>],
       [])
   \<and> [\<lparr>offer_id = PStr (py ''123''), stock = 100\<rparr>,
      \<lparr>offer_id = PStr (py ''456''), stock = 0\<rparr>,
      \<lparr>offer_id = PStr (py ''789''), stock = 7\<rparr>] ! (3 - 1) = \<lparr>offer_id = PStr (py ''789''), stock = 7\<rparr>
   \<and> py_str (dict_get (feed_row ''789'' ''7'' []) kolichestvo) = py ''7''
   \<and> py_int (dict_get (feed_row ''789'' ''7'' []) kolichestvo) = Inr 7
   \<and> market_create_stocks (py ''2024-01-01T00:00:00Z'') [feed_row ''123'' ''>10'' [], feed_row ''456'' ''1'' []]
      [PStr (py ''123''), PStr (py ''456''), PStr (py ''789'')] (PStr (py ''w1''))
    = Inr ([\<lparr>sku = PStr (py ''123''), warehouseId = PStr (py ''w1''),
        items = [\<lparr>item_count = 100, item_type = py ''FIT'', updatedAt = py ''2024-01-01T00:00:00Z''\<rparr>]\<rparr>,
      \<lparr>sku = PStr (py ''456''), warehouseId = PStr (py ''w1''),
        items = [\<lparr>item_count = 0, item_type = py ''FIT'', updatedAt = py ''2024-01-01T00:00:00Z''\<rparr>]\<rparr>,
      \<lparr>sku = PStr (py ''789''), warehouseId = PStr (py ''w1''),
        items = [\<lparr>item_count = 0, item_type = py ''FIT'', updatedAt = py ''2024-01-01T00:00:00Z''\<rparr>]\<rparr>],
       [PStr (py ''789'')])
   \<and> market_create_stocks (py ''2024-01-01T00:00:00Z'') ([feed_row ''123'' ''>10'' [], feed_row ''456'' ''1'' []] @ feed_row ''789'' ''7'' [] # [])
      [PStr (py ''123''), PStr (py ''456''), PStr (py ''789'')] (PStr (py ''w1''))
    = Inr ([\<lparr>sku = PStr (py ''123''), warehouseId = PStr (py ''w1''),
        items = [\<lparr>item_count = 100, item_type = py ''FIT'', updatedAt = py ''2024-01-01T00:00:00Z''\<rparr>]\<rparr>,
      \<lparr>sku = PStr (py ''456''), warehouseId = PStr (py ''w1''),
        items = [\<lparr>item_count = 0, item_type = py ''FIT'', updatedAt = py ''2024-01-01T00:00:00Z''\<rparr>]\<rparr>,
      \<lparr>sku = PStr (py ''789''), warehouseId = PStr (py ''w1''),
        items = [\<lparr>item_count = 7, item_type = py ''FIT'', updatedAt = py ''2024-01-01T00:00:00Z''\<rparr>]\<rparr>],
       [])"
  using create_stocks_quantity_rule
    [where pre = "[feed_row ''123'' ''>10'' [], feed_row ''456'' ''1'' []]"
       and ids = "[PStr (py ''123''), PStr (py ''456''), PStr (py ''789'')]"
       and w = "feed_row ''789'' ''7'' []" and post = "[]"
       and date = "py ''2024-01-01T00:00:00Z''" and wh = "PStr (py ''w1'')"]
  by (simp add: run_simps)

text \<open>
  C2 as stated, with the union, fails on the call of the docstring of
  \<open>create_stocks\<close>: the record with code 456 is no offer
  of the catalogue and gets no entry. Two entries are returned; the union of the offer
  IDs and the record codes has three elements.
\<close>

theorem create_stocks_union_counterexample:
  "create_stocks [feed_row ''123'' ''>10'' [], feed_row ''456'' ''1'' []]
      [PStr (py ''123''), PStr (py ''789'')]
    = Inr ([\<lparr>offer_id = PStr (py ''123''), stock = 100\<rparr>,
      \<lparr>offer_id = PStr (py ''789''), stock = 0\<rparr>],
       [PStr (py ''789'')])
   \<and> card (set [PStr (py ''123''), PStr (py ''789'')]
          \<union> (\<lambda>w. PStr (code_of w)) ` set [feed_row ''123'' ''>10'' [], feed_row ''456'' ''1'' []]) = 3"
  by (simp add: run_simps card_insert_if)

text \<open>C2, amended, at an instance: the same call, on its duplicate-free offer-ID list.\<close>

theorem create_stocks_one_entry_per_offer_witness:
  "distinct [PStr (py ''123''), PStr (py ''789'')]
   \<and> create_stocks [feed_row ''123'' ''>10'' [], feed_row ''456'' ''1'' []]
      [PStr (py ''123''), PStr (py ''789'')]
    = Inr ([\<lparr>offer_id = PStr (py ''123''), stock = 100\<rparr>,
      \<lparr>offer_id = PStr (py ''789''), stock = 0\<rparr>],
       [PStr (py ''789'')])
   \<and> length [\<lparr>offer_id = PStr (py ''123''), stock = 100\<rparr>,
      \<lparr>offer_id = PStr (py ''789''), stock = 0\<rparr>] = length [PStr (py ''123''), PStr (py ''789'')]
   \<and> market_create_stocks (py ''2024-01-01T00:00:00Z'') [feed_row ''123'' ''>10'' [], feed_row ''456'' ''1'' []]
      [PStr (py ''123''), PStr (py ''789'')] (PStr (py ''w1''))
    = Inr ([\<lparr>sku = PStr (py ''123''), warehouseId = PStr (py ''w1''),
        items = [\<lparr>item_count = 100, item_type = py ''FIT'', updatedAt = py ''2024-01-01T00:00:00Z''\<rparr>]\<rparr>,
      \<lparr>sku = PStr (py ''789''), warehouseId = PStr (py ''w1''),
        items = [\<lparr>item_count = 0, item_type = py ''FIT'', updatedAt = py ''2024-01-01T00:00:00Z''\<rparr>]\<rparr>],
       [PStr (py ''789'')])"
  using create_stocks_one_entry_per_offer
    [where ids = "[PStr (py ''123''), PStr (py ''789'')]"
       and ws = "[feed_row ''123'' ''>10'' [], feed_row ''456'' ''1'' []]"
       and date = "py ''2024-01-01T00:00:00Z''" and wh = "PStr (py ''w1'')"]
  by (simp add: run_simps)

text \<open>
  C5 as stated, for every offer-ID list, fails on an offer ID that stands
  twice in the list while one record has its code: \<open>remove\<close>
  takes the first occurrence only, so the ID is still in the list on return although it
  matched a record.
\<close>

theorem create_stocks_consumes_counterexample:
  "create_stocks [feed_row ''123'' ''5'' []] [PStr (py ''123''), PStr (py ''123'')]
    = Inr ([\<lparr>offer_id = PStr (py ''123''), stock = 5\<rparr>,
      \<lparr>offer_id = PStr (py ''123''), stock = 0\<rparr>],
       [PStr (py ''123'')])
   \<and> filter (\<lambda>i. i \<notin> (\<lambda>w. PStr (code_of w)) ` set [feed_row ''123'' ''5'' []])
        [PStr (py ''123''), PStr (py ''123'')] = []"
  by (simp add: run_simps)

text \<open>C5, amended, at an instance. The docstring's call: 123 is consumed, 789 is left.\<close>

theorem create_stocks_consumes_offer_ids_witness:
  "distinct [PStr (py ''123''), PStr (py ''789'')]
   \<and> create_stocks [feed_row ''123'' ''>10'' [], feed_row ''456'' ''1'' []]
      [PStr (py ''123''), PStr (py ''789'')]
    = Inr ([\<lparr>offer_id = PStr (py ''123''), stock = 100\<rparr>,
      \<lparr>offer_id = PStr (py ''789''), stock = 0\<rparr>],
       [PStr (py ''789'')])
   \<and> filter (\<lambda>i. i \<notin> (\<lambda>w. PStr (code_of w)) ` set [feed_row ''123'' ''>10'' [], feed_row ''456'' ''1'' []])
        [PStr (py ''123''), PStr (py ''789'')] = [PStr (py ''789'')]
   \<and> create_prices [feed_row ''123'' ''>10'' [], feed_row ''456'' ''1'' []] [PStr (py ''789'')] = Inr []
   \<and> market_create_stocks (py ''2024-01-01T00:00:00Z'') [feed_row ''123'' ''>10'' [], feed_row ''456'' ''1'' []]
      [PStr (py ''123''), PStr (py ''789'')] (PStr (py ''w1''))
    = Inr ([\<lparr>sku = PStr (py ''123''), warehouseId = PStr (py ''w1''),
        items = [\<lparr>item_count = 100, item_type = py ''FIT'', updatedAt = py ''2024-01-01T00:00:00Z''\<rparr>]\<rparr>,
      \<lparr>sku = PStr (py ''789''), warehouseId = PStr (py ''w1''),
        items = [\<lparr>item_count = 0, item_type = py ''FIT'', updatedAt = py ''2024-01-01T00:00:00Z''\<rparr>]\<rparr>],
       [PStr (py ''789'')])"
  using create_stocks_consumes_offer_ids
    [where ids = "[PStr (py ''123''), PStr (py ''789'')]"
       and ws = "[feed_row ''123'' ''>10'' [], feed_row ''456'' ''1'' []]"
       and date = "py ''2024-01-01T00:00:00Z''" and wh = "PStr (py ''w1'')"]
  by (simp add: run_simps)

text \<open>
  C6 as stated, for every offer-ID list, fails. With the offer ID 123 twice in the list and one record for it, the entries after the
  record's are those of 789 and of 123, which the records do mention; the entries of the
  IDs the records never mention are that of 789 alone.
\<close>

theorem create_stocks_order_counterexample:
  "create_stocks [feed_row ''123'' ''5'' []] [PStr (py ''789''), PStr (py ''123''), PStr (py ''123'')]
    = Inr ([\<lparr>offer_id = PStr (py ''123''), stock = 5\<rparr>,
      \<lparr>offer_id = PStr (py ''789''), stock = 0\<rparr>,
      \<lparr>offer_id = PStr (py ''123''), stock = 0\<rparr>],
       [PStr (py ''789''), PStr (py ''123'')])
   \<and> map (\<lambda>i. \<lparr>offer_id = i, stock = 0\<rparr>)
        (filter (\<lambda>i. i \<notin> (\<lambda>w. PStr (code_of w)) ` set [feed_row ''123'' ''5'' []])
           [PStr (py ''789''), PStr (py ''123''), PStr (py ''123'')])
     = [\<lparr>offer_id = PStr (py ''789''), stock = 0\<rparr>]"
  by (simp add: run_simps)

text \<open>
  C6, amended, at an instance. Three records, one of them (555) not in the catalogue, against four offer IDs.
\<close>

theorem create_stocks_order_witness:
  "create_stocks [feed_row ''456'' ''1'' [], feed_row ''555'' ''3'' [], feed_row ''123'' ''>10'' []]
      [PStr (py ''123''), PStr (py ''789''), PStr (py ''456''), PStr (py ''999'')]
    = Inr (map2 (\<lambda>w n. \<lparr>offer_id = PStr (code_of w), stock = n\<rparr>)
             [feed_row ''456'' ''1'' [], feed_row ''123'' ''>10'' []] [0, 100]
           @ map (\<lambda>i. \<lparr>offer_id = i, stock = 0\<rparr>) [PStr (py ''789''), PStr (py ''999'')],
       [PStr (py ''789''), PStr (py ''999'')])
   \<and> create_stocks [feed_row ''456'' ''1'' [], feed_row ''555'' ''3'' [], feed_row ''123'' ''>10'' []]
      [PStr (py ''123''), PStr (py ''789''), PStr (py ''456''), PStr (py ''999'')]
    = Inr ([\<lparr>offer_id = PStr (py ''456''), stock = 0\<rparr>,
      \<lparr>offer_id = PStr (py ''123''), stock = 100\<rparr>,
      \<lparr>offer_id = PStr (py ''789''), stock = 0\<rparr>,
      \<lparr>offer_id = PStr (py ''999''), stock = 0\<rparr>],
       [PStr (py ''789''), PStr (py ''999'')])
   \<and> distinct [PStr (py ''123''), PStr (py ''789''), PStr (py ''456''), PStr (py ''999'')]
   \<and> market_create_stocks (py ''2024-01-01T00:00:00Z'') [feed_row ''456'' ''1'' [], feed_row ''555'' ''3'' [], feed_row ''123'' ''>10'' []]
      [PStr (py ''123''), PStr (py ''789''), PStr (py ''456''), PStr (py ''999'')] (PStr (py ''w1''))
    = Inr ([\<lparr>sku = PStr (py ''456''), warehouseId = PStr (py ''w1''),
        items = [\<lparr>item_count = 0, item_type = py ''FIT'', updatedAt = py ''2024-01-01T00:00:00Z''\<rparr>]\<rparr>,
      \<lparr>sku = PStr (py ''123''), warehouseId = PStr (py ''w1''),
        items = [\<lparr>item_count = 100, item_type = py ''FIT'', updatedAt = py ''2024-01-01T00:00:00Z''\<rparr>]\<rparr>,
      \<lparr>sku = PStr (py ''789''), warehouseId = PStr (py ''w1''),
        items = [\<lparr>item_count = 0, item_type = py ''FIT'', updatedAt = py ''2024-01-01T00:00:00Z''\<rparr>]\<rparr>,
      \<lparr>sku = PStr (py ''999''), warehouseId = PStr (py ''w1''),
        items = [\<lparr>item_count = 0, item_type = py ''FIT'', updatedAt = py ''2024-01-01T00:00:00Z''\<rparr>]\<rparr>],
       [PStr (py ''789''), PStr (py ''999'')])"
  using create_stocks_order
    [where ids = "[PStr (py ''123''), PStr (py ''789''), PStr (py ''456''), PStr (py ''999'')]"
       and ws = "[feed_row ''456'' ''1'' [], feed_row ''555'' ''3'' [], feed_row ''123'' ''>10'' []]"
       and date = "py ''2024-01-01T00:00:00Z''" and wh = "PStr (py ''w1'')"]
  by (simp add: run_simps)

text \<open>
  C4 as stated fails on market.py. Two calls of market.py's \<open>create_stocks\<close> on the same arguments, one second apart,
  return different lists: the entries differ in \<open>updatedAt\<close>.
\<close>

theorem create_stocks_clock_counterexample:
  "market_create_stocks (py ''2024-01-01T00:00:00Z'') [] [PStr (py ''123'')] (PStr (py ''w1''))
    = Inr ([\<lparr>sku = PStr (py ''123''), warehouseId = PStr (py ''w1''),
        items = [\<lparr>item_count = 0, item_type = py ''FIT'', updatedAt = py ''2024-01-01T00:00:00Z''\<rparr>]\<rparr>],
       [PStr (py ''123'')])
   \<and> market_create_stocks (py ''2024-01-01T00:00:01Z'') [] [PStr (py ''123'')] (PStr (py ''w1''))
    = Inr ([\<lparr>sku = PStr (py ''123''), warehouseId = PStr (py ''w1''),
        items = [\<lparr>item_count = 0, item_type = py ''FIT'', updatedAt = py ''2024-01-01T00:00:01Z''\<rparr>]\<rparr>],
       [PStr (py ''123'')])
   \<and> market_create_stocks (py ''2024-01-01T00:00:00Z'') [] [PStr (py ''123'')] (PStr (py ''w1''))
     \<noteq> market_create_stocks (py ''2024-01-01T00:00:01Z'') [] [PStr (py ''123'')] (PStr (py ''w1''))"
  by (simp add: run_simps)

text \<open>C4, amended, at an instance: the docstring's call on market.py, one second apart.\<close>

theorem create_stocks_two_runs_witness:
  "create_stocks [feed_row ''123'' ''>10'' [], feed_row ''456'' ''1'' []]
      [PStr (py ''123''), PStr (py ''789'')]
    = Inr ([\<lparr>offer_id = PStr (py ''123''), stock = 100\<rparr>,
      \<lparr>offer_id = PStr (py ''789''), stock = 0\<rparr>],
       [PStr (py ''789'')])
   \<and> market_create_stocks (py ''2024-01-01T00:00:00Z'') [feed_row ''123'' ''>10'' [], feed_row ''456'' ''1'' []]
      [PStr (py ''123''), PStr (py ''789'')] (PStr (py ''w1''))
    = Inr ([\<lparr>sku = PStr (py ''123''), warehouseId = PStr (py ''w1''),
        items = [\<lparr>item_count = 100, item_type = py ''FIT'', updatedAt = py ''2024-01-01T00:00:00Z''\<rparr>]\<rparr>,
      \<lparr>sku = PStr (py ''789''), warehouseId = PStr (py ''w1''),
        items = [\<lparr>item_count = 0, item_type = py ''FIT'', updatedAt = py ''2024-01-01T00:00:00Z''\<rparr>]\<rparr>],
       [PStr (py ''789'')])
   \<and> market_create_stocks (py ''2024-01-01T00:00:01Z'') [feed_row ''123'' ''>10'' [], feed_row ''456'' ''1'' []]
      [PStr (py ''123''), PStr (py ''789'')] (PStr (py ''w1''))
    = Inr (map (restamp (py ''2024-01-01T00:00:01Z''))
             [\<lparr>sku = PStr (py ''123''), warehouseId = PStr (py ''w1''),
        items = [\<lparr>item_count = 100, item_type = py ''FIT'', updatedAt = py ''2024-01-01T00:00:00Z''\<rparr>]\<rparr>,
      \<lparr>sku = PStr (py ''789''), warehouseId = PStr (py ''w1''),
        items = [\<lparr>item_count = 0, item_type = py ''FIT'', updatedAt = py ''2024-01-01T00:00:00Z''\<rparr>]\<rparr>],
       [PStr (py ''789'')])"
  using create_stocks_two_runs
    [where ws = "[feed_row ''123'' ''>10'' [], feed_row ''456'' ''1'' []]"
       and ids = "[PStr (py ''123''), PStr (py ''789'')]"
       and wh = "PStr (py ''w1'')" and ?d1.0 = "py ''2024-01-01T00:00:00Z''" and ?d2.0 = "py ''2024-01-01T00:00:01Z''"
       and ?r1.0 = "Inr ([\<lparr>offer_id = PStr (py ''123''), stock = 100\<rparr>,
      \<lparr>offer_id = PStr (py ''789''), stock = 0\<rparr>],
       [PStr (py ''789'')])"
       and ?r2.0 = "Inr ([\<lparr>offer_id = PStr (py ''123''), stock = 100\<rparr>,
      \<lparr>offer_id = PStr (py ''789''), stock = 0\<rparr>],
       [PStr (py ''789'')])"]
  by (simp add: run_simps restamp_def)

section \<open>Properties of the price lists\<close>




section \<open>Properties of the catalogue fetch\<close>

lemma get_offer_ids_loop_append:
  "get_offer_ids_loop (pre @ net) l pl c t =
     (case get_offer_ids_loop pre l pl c t of
        Pending (l', pl') \<Rightarrow> get_offer_ids_loop net l' pl' c t
      | Raised e \<Rightarrow> Raised e
      | Returned r \<Rightarrow> Returned r)"
  by (induction pre arbitrary: l pl) (auto simp: Let_def split: sum.splits)

lemma market_get_offer_ids_loop_append:
  "market_get_offer_ids_loop (pre @ net) l pl c t =
     (case market_get_offer_ids_loop pre l pl c t of
        Pending (l', pl') \<Rightarrow> market_get_offer_ids_loop net l' pl' c t
      | Raised e \<Rightarrow> Raised e
      | Returned r \<Rightarrow> Returned r)"
  by (induction pre arbitrary: l pl) (auto simp: Let_def split: sum.splits)

text \<open>
  C10. Let the fetch have made the requests answered by \<open>pre\<close> and be about to make
  the next one, in loop state (cursor, products so far). If the answer to that request
  has an error status, one that \<open>raise_for_status\<close> rejects, the fetch raises
  \<open>HTTPError\<close>, whatever it had collected and whatever answers would follow: no list is
  returned. For every identifier and token, on both marketplaces.
\<close>

theorem get_offer_ids_http_error:
  "(get_offer_ids pre client_id seller_token = Pending (last_id, product_list)
      \<longrightarrow> 400 \<le> status_code (bad (last_id, client_id, seller_token))
      \<longrightarrow> status_code (bad (last_id, client_id, seller_token)) < 600
      \<longrightarrow> get_offer_ids (pre @ bad # post) client_id seller_token = Raised HTTPError)
 \<and> (market_get_offer_ids mpre campaign_id market_token = Pending (page, mproduct_list)
      \<longrightarrow> 400 \<le> status_code (mbad (page, campaign_id, market_token))
      \<longrightarrow> status_code (mbad (page, campaign_id, market_token)) < 600
      \<longrightarrow> market_get_offer_ids (mpre @ mbad # mpost) campaign_id market_token = Raised HTTPError)"
proof (intro conjI impI)
  assume p: "get_offer_ids pre client_id seller_token = Pending (last_id, product_list)"
    and s: "400 \<le> status_code (bad (last_id, client_id, seller_token))"
      "status_code (bad (last_id, client_id, seller_token)) < 600"
  from p have "get_offer_ids_loop pre [] [] client_id seller_token = Pending (last_id, product_list)"
    by (simp add: get_offer_ids_def split: outcome.splits)
  moreover from s have "get_product_list bad last_id client_id seller_token = Inl HTTPError"
    by (simp add: get_product_list_def raise_for_status_def)
  ultimately show "get_offer_ids (pre @ bad # post) client_id seller_token = Raised HTTPError"
    by (simp add: get_offer_ids_def get_offer_ids_loop_append)
next
  assume p: "market_get_offer_ids mpre campaign_id market_token = Pending (page, mproduct_list)"
    and s: "400 \<le> status_code (mbad (page, campaign_id, market_token))"
      "status_code (mbad (page, campaign_id, market_token)) < 600"
  from p have "market_get_offer_ids_loop mpre (PStr []) [] campaign_id market_token
      = Pending (page, mproduct_list)"
    by (simp add: market_get_offer_ids_def split: outcome.splits)
  moreover from s have "market_get_product_list mbad page campaign_id market_token = Inl HTTPError"
    by (simp add: market_get_product_list_def raise_for_status_def)
  ultimately show "market_get_offer_ids (mpre @ mbad # mpost) campaign_id market_token = Raised HTTPError"
    by (simp add: market_get_offer_ids_def market_get_offer_ids_loop_append)
qed

text \<open>C10, at an instance. A first page that asks for more, then a status 500 (seller.py) and 404 (market.py).\<close>

theorem get_offer_ids_http_error_witness:
  "get_offer_ids [(\<lambda>request. \<lparr>status_code = 200, json_result =
          \<lparr>page_items = [\<lparr>product_offer_id = PStr (py ''123'')\<rparr>], page_total = 2, page_last_id = py ''a''\<rparr>\<rparr>)] (py ''client'') (py ''token'')
    = Pending (py ''a'', [\<lparr>product_offer_id = PStr (py ''123'')\<rparr>])
   \<and> status_code ((\<lambda>request. \<lparr>status_code = 500, json_result =
          \<lparr>page_items = [], page_total = 0, page_last_id = []\<rparr>\<rparr>) (py ''a'', py ''client'', py ''token'')) = 500
   \<and> get_offer_ids ([(\<lambda>request. \<lparr>status_code = 200, json_result =
          \<lparr>page_items = [\<lparr>product_offer_id = PStr (py ''123'')\<rparr>], page_total = 2, page_last_id = py ''a''\<rparr>\<rparr>)]
        @ (\<lambda>request. \<lparr>status_code = 500, json_result =
          \<lparr>page_items = [], page_total = 0, page_last_id = []\<rparr>\<rparr>) # []) (py ''client'') (py ''token'')
    = Raised HTTPError
   \<and> market_get_offer_ids [(\<lambda>request. \<lparr>status_code = 200, json_result =
          \<lparr>offerMappingEntries = [\<lparr>shopSku = PStr (py ''123'')\<rparr>], nextPageToken = PStr (py ''t2'')\<rparr>\<rparr>)] (py ''client'') (py ''token'')
    = Pending (PStr (py ''t2''), [\<lparr>shopSku = PStr (py ''123'')\<rparr>])
   \<and> status_code ((\<lambda>request. \<lparr>status_code = 404, json_result =
          \<lparr>offerMappingEntries = [], nextPageToken = PNone\<rparr>\<rparr>) (PStr (py ''t2''), py ''client'', py ''token'')) = 404
   \<and> market_get_offer_ids ([(\<lambda>request. \<lparr>status_code = 200, json_result =
          \<lparr>offerMappingEntries = [\<lparr>shopSku = PStr (py ''123'')\<rparr>], nextPageToken = PStr (py ''t2'')\<rparr>\<rparr>)]
        @ (\<lambda>request. \<lparr>status_code = 404, json_result =
          \<lparr>offerMappingEntries = [], nextPageToken = PNone\<rparr>\<rparr>) # []) (py ''client'') (py ''token'')
    = Raised HTTPError"
  using get_offer_ids_http_error
    [where pre = "[(\<lambda>request. \<lparr>status_code = 200, json_result =
          \<lparr>page_items = [\<lparr>product_offer_id = PStr (py ''123'')\<rparr>], page_total = 2, page_last_id = py ''a''\<rparr>\<rparr>)]"
       and bad = "(\<lambda>request. \<lparr>status_code = 500, json_result =
          \<lparr>page_items = [], page_total = 0, page_last_id = []\<rparr>\<rparr>)"
       and post = "[]" and client_id = "py ''client''" and seller_token = "py ''token''"
       and mpre = "[(\<lambda>request. \<lparr>status_code = 200, json_result =
          \<lparr>offerMappingEntries = [\<lparr>shopSku = PStr (py ''123'')\<rparr>], nextPageToken = PStr (py ''t2'')\<rparr>\<rparr>)]"
       and mbad = "(\<lambda>request. \<lparr>status_code = 404, json_result =
          \<lparr>offerMappingEntries = [], nextPageToken = PNone\<rparr>\<rparr>)"
       and mpost = "[]" and campaign_id = "py ''client''" and market_token = "py ''token''"]
  by (simp add: get_offer_ids_def market_get_offer_ids_def get_product_list_def
      market_get_product_list_def raise_for_status_def py_truthy_def py_def)

end
